theory Spec2Isabelle
  imports Main "HOL-Library.Word"
begin

unbundle bit_operations_syntax

section \<open>Binary images of spsdk/utils/images.py\<close>

text \<open>
  The development embeds the classes \<open>BinaryPattern\<close> and \<open>BinaryImage\<close> of
  \<open>spsdk/utils/images.py\<close>.

  \<^item> Python integers are \<open>int\<close>, bytes are \<open>8 word\<close>, \<open>bytes\<close> and
    \<open>bytearray\<close> values are lists of bytes.
  \<^item> An exception is a value of the type \<open>error\<close>; a method that only computes
    returns \<open>error + 'a\<close>, a method that mutates the object returns the raised
    exception (if any) together with the object as the call leaves it.
  \<^item> The images form an ownership tree: \<open>sub_images\<close> holds the children of a
    node and every object occurs at one place of the tree. The back reference
    \<open>parent\<close>, which \<open>add_image\<close> sets to the node that holds the child, is
    therefore the position in the tree; a method that follows it
    (\<open>absolute_address\<close>) takes the chain of ancestors, nearest first.
  \<^item> The interpreter is a 64-bit CPython: \<open>sys.maxsize\<close> is \<open>2^63 - 1\<close>. Running
    out of memory or of recursion depth is not modelled.
\<close>

subsection \<open>Exceptions\<close>

datatype error =
    SPSDKValueError_pattern string          \<comment> \<open>Unsupported input pattern\<close>
  | SPSDKValueError_offset string           \<comment> \<open>Image offset of ... cannot be in negative numbers.\<close>
  | SPSDKValueError_size string             \<comment> \<open>Image size of ... cannot be in negative numbers or zero.\<close>
  | SPSDKOverlapError_fit string string     \<comment> \<open>The image ... doesn't fit into ... parent image.\<close>
  | SPSDKOverlapError_overlap string string \<comment> \<open>The image overlap error: ... overlaps the: ...\<close>
  | ValueError                              \<comment> \<open>raised by the builtins \<open>len\<close>, \<open>min\<close>, \<open>bytes\<close>\<close>
  | OverflowError                           \<comment> \<open>raised by the builtin \<open>len\<close>\<close>
  | ZeroDivisionError

subsection \<open>Python sequences\<close>

type_synonym byte = "8 word"

text \<open>
  One bound of a slice with step 1 on a sequence of length \<open>n\<close>: a negative bound
  counts from the end, and the result is clamped to \<open>0..n\<close>.
\<close>

definition slice_index :: "int \<Rightarrow> nat \<Rightarrow> nat" where
  "slice_index i n = (if i < 0 then nat (max 0 (i + int n)) else min (nat i) n)"

text \<open>\<open>xs[:k]\<close>\<close>

definition slice_to :: "'a list \<Rightarrow> int \<Rightarrow> 'a list" where
  "slice_to xs k = take (slice_index k (length xs)) xs"


text \<open>
  \<open>int(a / b)\<close> for \<open>b > 0\<close>: the quotient truncated towards zero. The source
  divides in floating point; the quotient of two integers is rounded correctly, so the
  truncation is the one of the exact quotient as long as \<open>|a| < 2^53\<close>.
\<close>

definition int_truediv :: "int \<Rightarrow> int \<Rightarrow> int" where
  "int_truediv a b = (if 0 \<le> a then a div b else - ((- a) div b))"

text \<open>The builtin \<open>min\<close> on a list.\<close>

fun py_min :: "int list \<Rightarrow> error + int" where
  "py_min [] = Inl ValueError"
| "py_min (x # xs) = Inr (fold min xs x)"

subsection \<open>BinaryPattern\<close>

datatype BinaryPattern = BinaryPattern (pattern_str: string)

definition SPECIAL_PATTERNS :: "string list" where
  "SPECIAL_PATTERNS = [''rand'', ''zeros'', ''ones'', ''inc'']"

text \<open>
  \<open>BinaryPattern.__init__\<close>. The helper \<open>value_to_int\<close> of \<open>spsdk.utils.misc\<close>
  is a parameter: \<open>None\<close> stands for its \<open>SPSDKError\<close>.
\<close>

definition BinaryPattern_init :: "(string \<Rightarrow> int option) \<Rightarrow> string \<Rightarrow> error + BinaryPattern" where
  "BinaryPattern_init value_to_int pattern =
     (case value_to_int pattern of
        Some _ \<Rightarrow> Inr (BinaryPattern pattern)
      | None \<Rightarrow>
          if pattern \<notin> set SPECIAL_PATTERNS then Inl (SPSDKValueError_pattern pattern)
          else Inr (BinaryPattern pattern))"

text \<open>
  The random generator is a stream of bytes; a call takes the bytes it returns off the
  front of the stream, so two calls do not return the same bytes.
\<close>

type_synonym entropy = "nat \<Rightarrow> byte"

text \<open>
  Modelled from the spec: \<open>crypto_backend().random_bytes\<close> is not among the sources.
  The spec: "\<open>rand\<close> \<rightarrow> \<open>size\<close> bytes from a cryptographically-sourced random
  generator".
\<close>

definition random_bytes :: "int \<Rightarrow> entropy \<Rightarrow> byte list \<times> entropy" where
  "random_bytes sz s = (map s [0..<nat sz], \<lambda>i. s (i + nat sz))"

text \<open>
  \<open>BinaryPattern.get_block\<close>. The helper \<open>value_to_bytes\<close> of
  \<open>spsdk.utils.misc\<close>, which encodes a numeric literal as bytes, is a parameter.
\<close>

fun get_block :: "(string \<Rightarrow> byte list) \<Rightarrow> BinaryPattern \<Rightarrow> int \<Rightarrow> entropy
    \<Rightarrow> error + (byte list \<times> entropy)" where
  "get_block value_to_bytes (BinaryPattern p) sz s =
     (if p = ''zeros'' then
        (if sz < 0 then Inl ValueError else Inr (replicate (nat sz) 0, s))
      else if p = ''ones'' then Inr (replicate (nat sz) 0xFF, s)
      else if p = ''rand'' then Inr (random_bytes sz s)
      else if p = ''inc'' then Inr (map (\<lambda>x. word_of_int (x AND 0xFF)) [0..sz - 1], s)
      else
        let pattern = value_to_bytes p in
        if pattern = [] then Inl ZeroDivisionError
        else
          let block = concat (replicate (nat (int_truediv sz (int (length pattern)))) pattern)
          in Inr (slice_to block sz, s))"

subsection \<open>BinaryImage\<close>

text \<open>
  The attributes of a \<open>BinaryImage\<close>: \<open>size_img\<close> is \<open>_size\<close>;
  \<open>description\<close> is text for \<open>info\<close> and \<open>draw\<close> only and is left out;
  \<open>parent\<close> is the position in the tree.
\<close>

datatype BinaryImage = BinaryImage
  (name: string)
  (offset: int)
  (size_img: int)
  (binary: "byte list option")
  (pattern: "BinaryPattern option")
  (sub_images: "BinaryImage list")

definition with_offset :: "BinaryImage \<Rightarrow> int \<Rightarrow> BinaryImage" where
  "with_offset img v =
     BinaryImage (name img) v (size_img img) (binary img) (pattern img) (sub_images img)"

definition with_sub_images :: "BinaryImage \<Rightarrow> BinaryImage list \<Rightarrow> BinaryImage" where
  "with_sub_images img subs =
     BinaryImage (name img) (offset img) (size_img img) (binary img) (pattern img) subs"

text \<open>\<open>sys.maxsize\<close>\<close>

definition sys_maxsize :: int where
  "sys_maxsize = 2 ^ 63 - 1"

text \<open>
  The builtin \<open>len\<close> (and the truth value of an object that has \<open>__len__\<close>) raises
  \<open>ValueError\<close> when \<open>__len__\<close> returns a negative number and \<open>OverflowError\<close>
  when it returns a number above \<open>sys.maxsize\<close>.
\<close>

definition len_result :: "error + int \<Rightarrow> error + int" where
  "len_result r =
     (case r of
        Inl e \<Rightarrow> Inl e
      | Inr n \<Rightarrow>
          if n < 0 then Inl ValueError
          else if n > sys_maxsize then Inl OverflowError
          else Inr n)"

text \<open>\<open>len(self.binary) if self.binary else 0\<close>: \<open>None\<close> and \<open>b""\<close> are false.\<close>

definition binary_len :: "byte list option \<Rightarrow> int" where
  "binary_len bin = (case bin of None \<Rightarrow> 0 | Some b \<Rightarrow> if b \<noteq> [] then int (length b) else 0)"

text \<open>
  \<open>BinaryImage.__len__\<close>, with its loop over the sub images; the loop calls
  \<open>len(image)\<close>.
\<close>

fun dunder_len :: "BinaryImage \<Rightarrow> error + int"
  and len_sub_images :: "int \<Rightarrow> BinaryImage list \<Rightarrow> error + int" where
  "dunder_len (BinaryImage nm off sz bin pat subs) =
     (if sz \<noteq> 0 then Inr sz else len_sub_images (binary_len bin) subs)"
| "len_sub_images max_size [] = Inr max_size"
| "len_sub_images max_size (img # rest) =
     (case len_result (dunder_len img) of
        Inl e \<Rightarrow> Inl e
      | Inr l \<Rightarrow> len_sub_images (max (offset img + l) max_size) rest)"

text \<open>\<open>len(image)\<close>\<close>

definition py_len :: "BinaryImage \<Rightarrow> error + int" where
  "py_len img = len_result (dunder_len img)"

text \<open>
  \<open>BinaryImage.add_image\<close>: the loop that inserts the image before the first child
  with a greater offset, or appends it.
\<close>

fun insert_image :: "BinaryImage \<Rightarrow> BinaryImage list \<Rightarrow> BinaryImage list" where
  "insert_image img [] = [img]"
| "insert_image img (child # rest) =
     (if offset img < offset child then img # child # rest
      else child # insert_image img rest)"

definition add_image :: "BinaryImage \<Rightarrow> BinaryImage \<Rightarrow> BinaryImage" where
  "add_image self img = with_sub_images self (insert_image img (sub_images self))"

text \<open>
  \<open>BinaryImage.absolute_address\<close> of \<open>self\<close> below the chain of its ancestors,
  the parent first. \<open>if self.parent\<close> is the truth value of the parent object, that
  is \<open>len(parent) != 0\<close>.
\<close>

fun absolute_address :: "BinaryImage list \<Rightarrow> BinaryImage \<Rightarrow> error + int" where
  "absolute_address [] self = Inr (offset self)"
| "absolute_address (parent # ancestors) self =
     (case py_len parent of
        Inl e \<Rightarrow> Inl e
      | Inr n \<Rightarrow>
          if n \<noteq> 0 then
            (case absolute_address ancestors parent of
               Inl e \<Rightarrow> Inl e
             | Inr a \<Rightarrow> Inr (a + offset self))
          else Inr (offset self))"

text \<open>
  The inner loop of \<open>BinaryImage.validate\<close>: the image at position \<open>i\<close> of the
  sub images, with its first and last byte, against every sibling. The objects of the
  list are distinct, so \<open>sibling != image\<close> compares the positions.
\<close>

fun check_siblings :: "BinaryImage \<Rightarrow> nat \<Rightarrow> int \<Rightarrow> int \<Rightarrow> (nat \<times> BinaryImage) list
    \<Rightarrow> error + unit" where
  "check_siblings img i img_begin img_end [] = Inr ()"
| "check_siblings img i img_begin img_end ((j, sibling) # rest) =
     (if j \<noteq> i then
        (case py_len sibling of
           Inl e \<Rightarrow> Inl e
         | Inr l \<Rightarrow>
             let sibling_begin = offset sibling;
                 sibling_end = sibling_begin + l - 1
             in if img_end < sibling_begin \<or> img_begin > sibling_end
                then check_siblings img i img_begin img_end rest
                else Inl (SPSDKOverlapError_overlap (name img) (name sibling)))
      else check_siblings img i img_begin img_end rest)"

text \<open>
  \<open>BinaryImage.validate\<close>, called on an image without parent. The loop over the sub
  images takes \<open>len(self)\<close> (which the method has computed before the loop), the name
  of \<open>self\<close>, all sub images, and the position and the rest of the iteration. Of the
  message of an exception, the model keeps the names of the images it is about.
\<close>

fun validate :: "BinaryImage \<Rightarrow> error + unit"
  and validate_sub_images :: "int \<Rightarrow> string \<Rightarrow> BinaryImage list \<Rightarrow> nat \<Rightarrow> BinaryImage list
    \<Rightarrow> error + unit" where
  "validate (BinaryImage nm off sz bin pat subs) =
     (if off < 0 then Inl (SPSDKValueError_offset nm)
      else
        (case py_len (BinaryImage nm off sz bin pat subs) of
           Inl e \<Rightarrow> Inl e
         | Inr n \<Rightarrow>
             if n \<le> 0 then Inl (SPSDKValueError_size nm)
             else validate_sub_images n nm subs 0 subs))"
| "validate_sub_images n nm all_images i [] = Inr ()"
| "validate_sub_images n nm all_images i (img # rest) =
     (case validate img of
        Inl e \<Rightarrow> Inl e
      | Inr _ \<Rightarrow>
          (case py_len img of
             Inl e \<Rightarrow> Inl e
           | Inr l \<Rightarrow>
               let img_begin = offset img;
                   img_end = img_begin + l - 1
               in if img_end > n then Inl (SPSDKOverlapError_fit (name img) nm)
                  else
                    (case check_siblings img i img_begin img_end (enumerate 0 all_images) of
                       Inl e \<Rightarrow> Inl e
                     | Inr _ \<Rightarrow> validate_sub_images n nm all_images (Suc i) rest)))"

text \<open>
  \<open>BinaryImage.update_offsets\<close>. \<open>min\<close> raises on the empty list, before anything
  is assigned.
\<close>

definition update_offsets :: "BinaryImage \<Rightarrow> error option \<times> BinaryImage" where
  "update_offsets self =
     (let offsets = map offset (sub_images self) in
      case py_min offsets of
        Inl e \<Rightarrow> (Some e, self)
      | Inr min_offset \<Rightarrow>
          (None,
           with_offset
             (with_sub_images self
                (map (\<lambda>img. with_offset img (offset img - min_offset)) (sub_images self)))
             (offset self + min_offset)))"



subsection \<open>Notions of the specification\<close>










subsection \<open>Parameters of the examples\<close>

text \<open>A random generator that returns zero bytes only.\<close>

definition zero_entropy :: entropy where
  "zero_entropy = (\<lambda>_. 0)"

text \<open>
  \<open>value_to_bytes\<close> on the literal of the examples: \<open>0x1234\<close> is encoded in the
  two bytes \<open>12 34\<close>; any other literal stands for one zero byte.
\<close>

definition example_value_to_bytes :: "string \<Rightarrow> byte list" where
  "example_value_to_bytes p = (if p = ''0x1234'' then [0x12, 0x34] else [0])"


section \<open>Theorems\<close>

lemmas len_defs = py_len_def len_result_def binary_len_def sys_maxsize_def

subsection \<open>Pattern blocks\<close>

text \<open>
  C1. A block requested from a pattern should have exactly the requested size, a
  literal being repeated \<open>ceil(size / len(literal))\<close> times and cut. The code
  repeats the literal \<open>int(size / len(literal))\<close> times, so for the two-byte literal
  \<open>0x1234\<close> and the size 3 the block has the two bytes of one repetition only.
\<close>

theorem get_block_literal_short:
  "get_block example_value_to_bytes (BinaryPattern ''0x1234'') 3 zero_entropy
     = Inr ([0x12, 0x34], zero_entropy)"
  by (simp add: example_value_to_bytes_def int_truediv_def slice_to_def slice_index_def)

subsection \<open>Insertion\<close>

lemma insert_image_takeWhile:
  "insert_image img children =
     takeWhile (\<lambda>c. offset c \<le> offset img) children @ img #
     dropWhile (\<lambda>c. offset c \<le> offset img) children"
  by (induction children) auto

text \<open>
  C4 (as amended). \<open>add_image\<close> places the new child behind the leading children
  whose offset is at most its own, so behind an existing child of the same offset, and
  directly before the first child with a strictly greater offset (at the end when there
  is none).
\<close>

theorem add_image_position:
  "sub_images (add_image self img) =
     takeWhile (\<lambda>c. offset c \<le> offset img) (sub_images self) @ img #
     dropWhile (\<lambda>c. offset c \<le> offset img) (sub_images self)"
  by (simp add: add_image_def with_sub_images_def insert_image_takeWhile)

text \<open>
  C4 as stated fails: a parent holds \<open>A\<close> at offset 5; adding \<open>B\<close> at offset 5
  gives the children \<open>A, B\<close>, the new child behind the existing one.
\<close>

theorem add_image_equal_offset_counterexample:
  "sub_images (add_image (BinaryImage ''p'' 0 0 None None [BinaryImage ''A'' 5 1 None None []])
      (BinaryImage ''B'' 5 1 None None []))
     = [BinaryImage ''A'' 5 1 None None [], BinaryImage ''B'' 5 1 None None []]"
  by (simp add: add_image_def with_sub_images_def)

lemma set_insert_image: "set (insert_image img children) = insert img (set children)"
  by (induction children) auto

lemma sorted_insert_image:
  "sorted (map offset children) \<Longrightarrow> sorted (map offset (insert_image img children))"
  by (induction children) (auto simp: set_insert_image)

lemma sorted_foldl_add_image:
  "sorted (map offset (sub_images p)) \<Longrightarrow>
   sorted (map offset (sub_images (foldl add_image p imgs)))"
  by (induction imgs arbitrary: p)
    (simp_all add: add_image_def with_sub_images_def sorted_insert_image)

text \<open>
  C8. Whatever images are added, in whatever order, to a parent that starts without
  children, the offsets of its children are in ascending order.
\<close>

theorem add_image_keeps_sorted:
  "sorted (map offset (sub_images (foldl add_image (BinaryImage nm off sz bin pat []) imgs)))"
  by (rule sorted_foldl_add_image) simp

subsection \<open>Validation\<close>

text \<open>
  C2. A child should be refused as not fitting exactly when
  \<open>offset + length\<close> exceeds the length of the parent. The code compares the last
  byte \<open>offset + length - 1\<close> with the length of the parent by \<open>>\<close>, so a child
  that ends one byte behind the parent passes: a parent of size 10 with a child of
  size 6 at offset 5 is valid for \<open>validate\<close>, while a child of size 10 at offset 5
  is refused.
\<close>

theorem validate_child_one_byte_over:
  "validate (BinaryImage ''parent'' 0 10 None None [BinaryImage ''child'' 5 6 None None []])
     = Inr ()
   \<and> validate (BinaryImage ''parent'' 0 10 None None [BinaryImage ''child'' 5 10 None None []])
     = Inl (SPSDKOverlapError_fit ''child'' ''parent'')"
  by (simp add: len_defs)











subsection \<open>Offset normalisation\<close>

lemma fold_min_Min: "fold min xs (x::int) = Min (set (x # xs))"
  by (simp only: Min.set_eq_fold)

lemma py_min_Min:
  assumes "xs \<noteq> []"
  shows "py_min xs = Inr (Min (set xs))"
proof (cases xs)
  case Nil
  with assms show ?thesis by simp
next
  case (Cons x rest)
  show ?thesis unfolding Cons by (simp only: py_min.simps fold_min_Min)
qed

lemma update_offsets_result:
  assumes "sub_images self \<noteq> []"
  shows "update_offsets self =
     (None, with_offset (with_sub_images self
        (map (\<lambda>c. with_offset c (offset c - Min (set (map offset (sub_images self)))))
          (sub_images self)))
        (offset self + Min (set (map offset (sub_images self)))))"
  using assms by (simp add: update_offsets_def py_min_Min)

lemma Min_shift:
  fixes xs :: "int list"
  assumes "xs \<noteq> []"
  shows "Min (set (map (\<lambda>x. x - m) xs)) = Min (set xs) - m"
proof -
  have "Min ((\<lambda>x. x - m) ` set xs) = Min (set xs) - m"
  proof (rule Min_eqI)
    show "finite ((\<lambda>x. x - m) ` set xs)" by simp
    show "\<And>y. y \<in> (\<lambda>x. x - m) ` set xs \<Longrightarrow> Min (set xs) - m \<le> y"
      by (auto intro: Min_le)
    have "Min (set xs) \<in> set xs" using assms by (intro Min_in) simp_all
    then show "Min (set xs) - m \<in> (\<lambda>x. x - m) ` set xs" by (rule imageI)
  qed
  then show ?thesis by simp
qed

lemma offset_with_offset: "offset (with_offset c v) = v"
  by (simp add: with_offset_def)

lemma map_offset_shift:
  "map offset (map (\<lambda>c. with_offset c (offset c - m)) cs) = map (\<lambda>x. x - m) (map offset cs)"
  by (simp add: offset_with_offset comp_def)

lemma update_offsets_fields:
  assumes "sub_images self \<noteq> []"
  shows "fst (update_offsets self) = None"
    and "offset (snd (update_offsets self))
           = offset self + Min (set (map offset (sub_images self)))"
    and "sub_images (snd (update_offsets self))
           = map (\<lambda>c. with_offset c (offset c - Min (set (map offset (sub_images self)))))
               (sub_images self)"
    and "name (snd (update_offsets self)) = name self"
    and "size_img (snd (update_offsets self)) = size_img self"
    and "binary (snd (update_offsets self)) = binary self"
    and "pattern (snd (update_offsets self)) = pattern self"
  unfolding update_offsets_result[OF assms]
  by (simp_all add: with_offset_def with_sub_images_def)

text \<open>
  C7. On an image with at least one sub image, \<open>update_offsets\<close> raises nothing;
  with \<open>m\<close> the least offset of the sub images, it adds \<open>m\<close> to the offset of the
  image and takes \<open>m\<close> off the offset of every sub image, whose least offset is 0
  afterwards; nothing else changes.
\<close>

theorem update_offsets_shifts:
  assumes "sub_images self \<noteq> []"
  shows "let m = Min (set (map offset (sub_images self)));
             r = update_offsets self
         in fst r = None
          \<and> offset (snd r) = offset self + m
          \<and> sub_images (snd r) = map (\<lambda>c. with_offset c (offset c - m)) (sub_images self)
          \<and> map offset (sub_images (snd r)) = map (\<lambda>x. x - m) (map offset (sub_images self))
          \<and> Min (set (map offset (sub_images (snd r)))) = 0
          \<and> name (snd r) = name self \<and> size_img (snd r) = size_img self
          \<and> binary (snd r) = binary self \<and> pattern (snd r) = pattern self"
proof -
  let ?m = "Min (set (map offset (sub_images self)))"
  let ?subs = "map (\<lambda>c. with_offset c (offset c - ?m)) (sub_images self)"
  note f = update_offsets_fields[OF assms]
  have ne: "map offset (sub_images self) \<noteq> []" using assms by simp
  have offs: "map offset ?subs = map (\<lambda>x. x - ?m) (map offset (sub_images self))"
    by (rule map_offset_shift)
  have min0: "Min (set (map offset ?subs)) = 0"
    unfolding offs using Min_shift[OF ne, of ?m] by simp
  show ?thesis
    unfolding Let_def f using offs min0 by simp
qed

text \<open>
  The example of the specification: a parent at offset 0 with sub images at the
  offsets 10, 20 and 30 ends at offset 10 with sub images at 0, 10 and 20.
\<close>

theorem update_offsets_shifts_witness:
  "sub_images (BinaryImage ''p'' 0 0 None None
      [BinaryImage ''a'' 10 1 None None [], BinaryImage ''b'' 20 1 None None [],
       BinaryImage ''c'' 30 1 None None []]) \<noteq> []
   \<and> offset (snd (update_offsets (BinaryImage ''p'' 0 0 None None
      [BinaryImage ''a'' 10 1 None None [], BinaryImage ''b'' 20 1 None None [],
       BinaryImage ''c'' 30 1 None None []]))) = 10
   \<and> map offset (sub_images (snd (update_offsets (BinaryImage ''p'' 0 0 None None
      [BinaryImage ''a'' 10 1 None None [], BinaryImage ''b'' 20 1 None None [],
       BinaryImage ''c'' 30 1 None None []])))) = [0, 10, 20]"
proof -
  let ?p = "BinaryImage ''p'' 0 0 None None
      [BinaryImage ''a'' 10 1 None None [], BinaryImage ''b'' 20 1 None None [],
       BinaryImage ''c'' 30 1 None None []]"
  have h: "sub_images ?p \<noteq> []" by simp
  show ?thesis using update_offsets_shifts[OF h] by (simp add: Let_def offset_with_offset)
qed

text \<open>
  C10. On an image without sub images \<open>update_offsets\<close> raises \<open>ValueError\<close>
  (from \<open>min\<close> of the empty list) and leaves the image as it was.
\<close>

theorem update_offsets_no_children:
  "update_offsets (BinaryImage nm off sz bin pat [])
     = (Some ValueError, BinaryImage nm off sz bin pat [])"
  by (simp add: update_offsets_def)

lemma absolute_address_shift:
  assumes "map py_len ps' = map py_len ps" and "map offset ps' = map offset ps"
    and "offset n' = offset n + d"
  shows "absolute_address ps' n' = map_sum id (\<lambda>a. a + d) (absolute_address ps n)"
  using assms
proof (induction ps arbitrary: ps' n n' d)
  case Nil
  then show ?case by simp
next
  case (Cons p rest)
  from Cons.prems(1) obtain p' rest' where ps': "ps' = p' # rest'"
    by (cases ps') auto
  with Cons.prems have eqs: "py_len p' = py_len p" "map py_len rest' = map py_len rest"
    "offset p' = offset p" "map offset rest' = map offset rest"
    by simp_all
  have "absolute_address rest' p' = map_sum id (\<lambda>a. a + 0) (absolute_address rest p)"
    by (rule Cons.IH) (use eqs in simp_all)
  then have up: "absolute_address rest' p' = absolute_address rest p"
    by (cases "absolute_address rest p") simp_all
  show ?case
    unfolding ps' using eqs(1) up Cons.prems(3)
    by (simp split: sum.splits)
qed

text \<open>
  C9 (as amended). On an image with at least one sub image, \<open>update_offsets\<close> moves
  the absolute address of the image itself up by the least offset \<open>m\<close> of its sub
  images (an error of \<open>absolute_address\<close> stays the same error); what it keeps is
  the absolute address of every sub image, provided the image has a length other than
  zero before and after the call. The ancestors keep their offsets, and it is assumed
  that they keep their lengths.
\<close>

theorem update_offsets_moves_address:
  assumes "sub_images self \<noteq> []"
    and "map py_len ancestors' = map py_len ancestors"
    and "map offset ancestors' = map offset ancestors"
  shows "let m = Min (set (map offset (sub_images self)));
             self' = snd (update_offsets self)
         in absolute_address ancestors' self'
              = map_sum id (\<lambda>a. a + m) (absolute_address ancestors self)
          \<and> (\<forall>n n' i. py_len self = Inr n \<and> n \<noteq> 0 \<and> py_len self' = Inr n' \<and> n' \<noteq> 0
                \<and> i < length (sub_images self)
              \<longrightarrow> absolute_address (self' # ancestors') (sub_images self' ! i)
                    = absolute_address (self # ancestors) (sub_images self ! i))"
proof -
  let ?m = "Min (set (map offset (sub_images self)))"
  let ?self' = "snd (update_offsets self)"
  have off: "offset ?self' = offset self + ?m"
    and subs: "sub_images ?self' = map (\<lambda>c. with_offset c (offset c - ?m)) (sub_images self)"
    by (rule update_offsets_fields[OF assms(1)])+
  have own: "absolute_address ancestors' ?self'
      = map_sum id (\<lambda>a. a + ?m) (absolute_address ancestors self)"
    by (rule absolute_address_shift[OF assms(2,3) off])
  have kids: "absolute_address (?self' # ancestors') (sub_images ?self' ! i)
      = absolute_address (self # ancestors) (sub_images self ! i)"
    if "py_len self = Inr n" "n \<noteq> 0" "py_len ?self' = Inr n'" "n' \<noteq> 0"
      "i < length (sub_images self)" for n n' i
  proof -
    have c: "offset (sub_images ?self' ! i) = offset (sub_images self ! i) - ?m"
      using that(5) by (simp add: subs offset_with_offset)
    show ?thesis
      using that(1-4) own c by (cases "absolute_address ancestors self") simp_all
  qed
  show ?thesis
    unfolding Let_def using own kids by blast
qed


text \<open>
  The hypotheses of C9 hold for the image of the specification's example below a
  parent \<open>g\<close> of size 64 at offset 100: the absolute address of the image is 100
  before and 110 after the call.
\<close>

theorem update_offsets_moves_address_witness:
  "sub_images (BinaryImage ''p'' 0 0 None None
      [BinaryImage ''a'' 10 1 None None [], BinaryImage ''b'' 20 1 None None [],
       BinaryImage ''c'' 30 1 None None []]) \<noteq> []
   \<and> map py_len [BinaryImage ''g'' 100 64 None None [BinaryImage ''p'' 10 0 None None
      [BinaryImage ''a'' 0 1 None None [], BinaryImage ''b'' 10 1 None None [],
       BinaryImage ''c'' 20 1 None None []]]]
     = map py_len [BinaryImage ''g'' 100 64 None None [BinaryImage ''p'' 0 0 None None
      [BinaryImage ''a'' 10 1 None None [], BinaryImage ''b'' 20 1 None None [],
       BinaryImage ''c'' 30 1 None None []]]]
   \<and> absolute_address [BinaryImage ''g'' 100 64 None None [BinaryImage ''p'' 0 0 None None
      [BinaryImage ''a'' 10 1 None None [], BinaryImage ''b'' 20 1 None None [],
       BinaryImage ''c'' 30 1 None None []]]]
      (BinaryImage ''p'' 0 0 None None
      [BinaryImage ''a'' 10 1 None None [], BinaryImage ''b'' 20 1 None None [],
       BinaryImage ''c'' 30 1 None None []]) = Inr 100
   \<and> absolute_address [BinaryImage ''g'' 100 64 None None [BinaryImage ''p'' 10 0 None None
      [BinaryImage ''a'' 0 1 None None [], BinaryImage ''b'' 10 1 None None [],
       BinaryImage ''c'' 20 1 None None []]]]
      (snd (update_offsets (BinaryImage ''p'' 0 0 None None
      [BinaryImage ''a'' 10 1 None None [], BinaryImage ''b'' 20 1 None None [],
       BinaryImage ''c'' 30 1 None None []]))) = Inr 110"
proof -
  let ?p = "BinaryImage ''p'' 0 0 None None
      [BinaryImage ''a'' 10 1 None None [], BinaryImage ''b'' 20 1 None None [],
       BinaryImage ''c'' 30 1 None None []]"
  let ?p' = "BinaryImage ''p'' 10 0 None None
      [BinaryImage ''a'' 0 1 None None [], BinaryImage ''b'' 10 1 None None [],
       BinaryImage ''c'' 20 1 None None []]"
  let ?g = "BinaryImage ''g'' 100 64 None None [?p]"
  let ?g' = "BinaryImage ''g'' 100 64 None None [?p']"
  have h1: "sub_images ?p \<noteq> []" by simp
  have h2: "map py_len [?g'] = map py_len [?g]" by (simp add: len_defs)
  have h3: "map offset [?g'] = map offset [?g]" by simp
  have before: "absolute_address [?g] ?p = Inr 100" by (simp add: len_defs)
  have m: "Min (set (map offset (sub_images ?p))) = 10" by simp
  from update_offsets_moves_address[OF h1 h2 h3]
  have "absolute_address [?g'] (snd (update_offsets ?p))
      = map_sum id (\<lambda>a. a + 10) (absolute_address [?g] ?p)"
    unfolding Let_def m by (rule conjunct1)
  then have after: "absolute_address [?g'] (snd (update_offsets ?p)) = Inr 110"
    unfolding before by simp
  from h1 h2 before after show ?thesis by (intro conjI)
qed

text \<open>
  C9 as stated fails on the example of the specification: the image without parent at
  offset 0, with sub images at 10, 20 and 30, has the absolute address 0 before the call
  and 10 after it.
\<close>

theorem update_offsets_address_counterexample:
  "absolute_address [] (BinaryImage ''p'' 0 0 None None
      [BinaryImage ''a'' 10 1 None None [], BinaryImage ''b'' 20 1 None None [],
       BinaryImage ''c'' 30 1 None None []]) = Inr 0
   \<and> update_offsets (BinaryImage ''p'' 0 0 None None
      [BinaryImage ''a'' 10 1 None None [], BinaryImage ''b'' 20 1 None None [],
       BinaryImage ''c'' 30 1 None None []])
     = (None, BinaryImage ''p'' 10 0 None None
      [BinaryImage ''a'' 0 1 None None [], BinaryImage ''b'' 10 1 None None [],
       BinaryImage ''c'' 20 1 None None []])
   \<and> absolute_address [] (BinaryImage ''p'' 10 0 None None
      [BinaryImage ''a'' 0 1 None None [], BinaryImage ''b'' 10 1 None None [],
       BinaryImage ''c'' 20 1 None None []]) = Inr 10"
  by (simp add: update_offsets_def with_offset_def with_sub_images_def)


subsection \<open>Export\<close>





























end
